theory Spec2Isabelle
  imports Main "HOL-Library.Word"
begin

section \<open>Remote archive payload resolution (remotearchivedb.js)\<close>

text \<open>
  A shallow embedding of \<^verbatim>\<open>src/remotearchivedb.js\<close>: the class \<^verbatim>\<open>RemoteArchiveDB\<close>
  (constructor, \<^verbatim>\<open>updateHeaders\<close>, \<^verbatim>\<open>loadSource\<close>, \<^verbatim>\<open>loadPayload\<close>, \<^verbatim>\<open>commitPayload\<close>) and
  the class \<^verbatim>\<open>PayloadBufferingReader\<close> (constructor, \<^verbatim>\<open>setLimitSkip\<close>, the async
  generator).

  Objects that the JavaScript mutates in place (the catalog entry \<^verbatim>\<open>cdx\<close>, the buffering
  reader, the database) are passed in and returned updated. Exceptions are values of
  the type \<open>error\<close>, on the left of a sum. The collaborators that live outside the file
  (the block loader, the single-record parser, the base class \<^verbatim>\<open>ArchiveDB\<close>, the
  underlying stream reader, the outcome of each storage operation) are the fields of
  an environment record, so every theorem holds for all of them.
\<close>

subsection \<open>JavaScript values\<close>

type_synonym bytes = "8 word list"
type_synonym headers = "(string \<times> string) list"
type_synonym opts = "(string \<times> string) list"

text \<open>
  The exceptions that can leave a function of this file. \<open>ReferenceError x\<close> is what
  JavaScript throws when the identifier \<open>x\<close> is evaluated and no binding of that name
  is in scope; \<open>TypeError\<close> is thrown by \<^verbatim>\<open>new URL\<close> on an invalid URL and by a
  property read on \<^verbatim>\<open>undefined\<close>; \<open>StorageError\<close> stands for any failure of an IndexedDB
  operation; \<open>StreamError\<close> for a failure of the underlying stream.
\<close>

datatype error =
    AuthNeeded string
  | ReferenceError string
  | TypeError
  | StorageError
  | StreamError

text \<open>
  A string-valued slot that may be missing (\<^verbatim>\<open>undefined\<close> or \<^verbatim>\<open>null\<close>) is a
  \<open>string option\<close>. In a condition, a missing value and the empty string are falsy.
\<close>

definition truthy_str :: "string option \<Rightarrow> bool" where
  "truthy_str s = (case s of None \<Rightarrow> False | Some t \<Rightarrow> t \<noteq> [])"

text \<open>
  The first parameter of \<^verbatim>\<open>commitPayload\<close> receives a \<^verbatim>\<open>Uint8Array\<close> from one caller
  and a string from the other, so it is a dynamically typed value. A \<^verbatim>\<open>Uint8Array\<close> is
  an object: it is truthy even when it is empty.
\<close>

datatype jsval = JUndefined | JString string | JBytes bytes

fun truthy :: "jsval \<Rightarrow> bool" where
  "truthy JUndefined = False"
| "truthy (JString s) = (s \<noteq> [])"
| "truthy (JBytes b) = True"

text \<open>\<^verbatim>\<open>v.length\<close>; the property read throws a TypeError on \<^verbatim>\<open>undefined\<close>.\<close>

fun js_length :: "jsval \<Rightarrow> nat option" where
  "js_length JUndefined = None"
| "js_length (JString s) = Some (length s)"
| "js_length (JBytes b) = Some (length b)"

definition js_of_str :: "string option \<Rightarrow> jsval" where
  "js_of_str s = (case s of None \<Rightarrow> JUndefined | Some t \<Rightarrow> JString t)"

subsection \<open>Data model\<close>

text \<open>\<^verbatim>\<open>cdx.source\<close>: where the raw record lies in the remote archive.\<close>

record src =
  path :: string
  start :: nat
  len :: nat

text \<open>The catalog entry \<^verbatim>\<open>cdx\<close>, with the fields that this file reads or writes.\<close>

record cdx =
  url :: string
  ts :: string
  digest :: "string option"
  mime :: "string option"
  respHeaders :: "headers option"
  source :: src
  extraOpts :: "opts option"
  payload :: "bytes option"

text \<open>
  The record that \<^verbatim>\<open>SingleRecordWARCLoader.load\<close> returns, over the type \<open>'r\<close> of the
  underlying stream readers.
\<close>

record 'r remote =
  remote_url :: string
  remote_ts :: string
  remote_digest :: "string option"
  remote_respHeaders :: "headers option"
  remote_extraOpts :: "opts option"
  remote_payload :: "bytes option"
  remote_reader :: "'r option"
  remote_origURL :: "string option"
  remote_origTS :: "string option"

text \<open>A block loader object: what \<^verbatim>\<open>createLoader(url, headers)\<close> builds.\<close>

record block_loader =
  loader_url :: string
  loader_headers :: "headers option"

definition createLoader :: "string \<Rightarrow> headers \<Rightarrow> block_loader" where
  "createLoader u h = \<lparr>loader_url = u, loader_headers = Some h\<rparr>"

text \<open>\<^verbatim>\<open>new Headers(init)\<close>: no headers when \<^verbatim>\<open>init\<close> is missing.\<close>

definition new_Headers :: "headers option \<Rightarrow> headers" where
  "new_Headers h = (case h of None \<Rightarrow> [] | Some hs \<Rightarrow> hs)"

text \<open>The fields of a \<^verbatim>\<open>RemoteArchiveDB\<close> object.\<close>

record radb =
  db_name :: string
  remoteUrlPrefix :: "string option"
  headers :: "headers option"
  loader :: "block_loader option"
  useRefCounts :: bool

text \<open>
  The second argument of the constructor: \<^verbatim>\<open>typeof(remotePrefixOrLoader) === "string"\<close>
  selects the first variant, a loader object is the second.
\<close>

datatype prefix_or_loader = PrefixString string | LoaderObject block_loader

fun RemoteArchiveDB :: "string \<Rightarrow> prefix_or_loader \<Rightarrow> headers option \<Rightarrow> radb" where
  "RemoteArchiveDB nm (PrefixString p) h =
     \<lparr>db_name = nm, remoteUrlPrefix = Some p, headers = h, loader = None,
      useRefCounts = False\<rparr>"
| "RemoteArchiveDB nm (LoaderObject l) h =
     \<lparr>db_name = nm, remoteUrlPrefix = None, headers = None, loader = Some l,
      useRefCounts = False\<rparr>"

definition updateHeaders :: "headers option \<Rightarrow> radb \<Rightarrow> radb" where
  "updateHeaders h db =
     (case loader db of
        Some l \<Rightarrow> db\<lparr>loader := Some (l\<lparr>loader_headers := h\<rparr>)\<rparr>
      | None \<Rightarrow> db\<lparr>headers := h\<rparr>)"

subsection \<open>The stores and the console\<close>

text \<open>A record of the object store \<^verbatim>\<open>payload\<close>: the object \<^verbatim>\<open>{payload, digest}\<close>.\<close>

record payload_rec =
  pr_payload :: jsval
  pr_digest :: "string option"

text \<open>A row of the object store \<^verbatim>\<open>digestRef\<close>.\<close>

record ref =
  ref_digest :: string
  ref_count :: nat
  ref_size :: nat

datatype logmsg =
    NoRecordLoaded string
  | WrongUrl string string
  | WrongTimestamp string string
  | WrongDigest "string option" "string option"
  | RevisitLoop string
  | ResourceUpdateError string
  | LoggedError error
  | PayloadCommitError error
  | NotConsumed int

text \<open>
  What the program acts on. Each object store is the list of the records committed to
  it, oldest first, exactly as \<^verbatim>\<open>put\<close> received them; \<open>console\<close> is what has been
  logged; \<open>fetched\<close> lists the sources for which \<^verbatim>\<open>getRange\<close> has been called; \<open>tick\<close>
  counts the storage operations attempted so far.
\<close>

record world =
  store_resources :: "cdx list"
  store_payload :: "payload_rec list"
  store_digestRef :: "ref list"
  console :: "logmsg list"
  fetched :: "src list"
  tick :: nat

definition log :: "logmsg \<Rightarrow> world \<Rightarrow> world" where
  "log m w = w\<lparr>console := console w @ [m]\<rparr>"

text \<open>
  Modelled from the spec: the dedup store maps a digest to the bytes of the record
  last committed under that digest (\<^verbatim>\<open>get(digest) \<rightarrow> PayloadRecord | nothing\<close>); the
  object store itself belongs to \<^verbatim>\<open>ArchiveDB\<close>, which is not part of the file.
\<close>

definition dedup_get :: "world \<Rightarrow> string \<Rightarrow> jsval option" where
  "dedup_get w d =
     (case filter (\<lambda>r. pr_digest r = Some d) (rev (store_payload w)) of
        [] \<Rightarrow> None
      | r # _ \<Rightarrow> Some (pr_payload r))"

text \<open>
  Modelled from the spec: the ref store returns the row last committed under a
  digest (\<^verbatim>\<open>get(digest) \<rightarrow> ref | nothing\<close>); a missing key finds nothing.
\<close>

definition digestRef_get :: "ref list \<Rightarrow> string option \<Rightarrow> ref option" where
  "digestRef_get rs k =
     (case k of
        None \<Rightarrow> None
      | Some d \<Rightarrow> List.find (\<lambda>r. ref_digest r = d) (rev rs))"

subsection \<open>The environment\<close>

datatype 's fetch = Fetched 's | FetchFailed "nat option"

datatype 'r rd_step = RdChunk bytes 'r | RdDone 'r | RdThrow 'r

text \<open>
  The collaborators, over the type \<open>'s\<close> of fetched byte streams and the type \<open>'r\<close> of
  underlying readers:
  \<^item> \<open>resolveURL p b\<close> is \<^verbatim>\<open>new URL(p, b).href\<close>, \<open>None\<close> when it throws;
  \<^item> \<open>getRange l start length\<close> is \<^verbatim>\<open>l.getRange(start, length, true)\<close>, which yields a
    stream or fails with an error whose \<^verbatim>\<open>status\<close> may be missing;
  \<^item> \<open>parseRecord\<close> is \<^verbatim>\<open>new SingleRecordWARCLoader(stream).load()\<close>;
  \<^item> \<open>superLoadPayload\<close> is \<^verbatim>\<open>ArchiveDB.loadPayload\<close>, a read of the payload store;
  \<^item> \<open>lookupUrl\<close> is \<^verbatim>\<open>ArchiveDB.lookupUrl\<close>, a read of the catalog;
  \<^item> \<open>fails k\<close> tells whether the storage operation number \<open>k\<close> fails;
  \<^item> \<open>rd_next\<close>, \<open>rd_limit\<close>, \<open>rd_setLimitSkip\<close> are the underlying reader: one
    advance of its iterator, its field \<^verbatim>\<open>limit\<close>, its method \<^verbatim>\<open>setLimitSkip\<close>.
\<close>

record ('s, 'r) env =
  resolveURL :: "string \<Rightarrow> string option \<Rightarrow> string option"
  getRange :: "block_loader \<Rightarrow> nat \<Rightarrow> nat \<Rightarrow> 's fetch"
  parseRecord :: "'s option \<Rightarrow> 'r remote option"
  superLoadPayload :: "payload_rec list \<Rightarrow> cdx \<Rightarrow> bytes option"
  lookupUrl :: "cdx list \<Rightarrow> string \<Rightarrow> string option \<Rightarrow> cdx option"
  fails :: "nat \<Rightarrow> bool"
  rd_next :: "'r \<Rightarrow> 'r rd_step"
  rd_limit :: "'r \<Rightarrow> int"
  rd_setLimitSkip :: "int \<Rightarrow> int \<Rightarrow> 'r \<Rightarrow> 'r"

text \<open>One storage operation: whether it succeeds, and the world after the attempt.\<close>

definition op_ok :: "('s, 'r) env \<Rightarrow> world \<Rightarrow> bool" where
  "op_ok env w = (\<not> fails env (tick w))"

definition ticked :: "world \<Rightarrow> world" where
  "ticked w = w\<lparr>tick := Suc (tick w)\<rparr>"

subsection \<open>loadSource\<close>

text \<open>
  The loader is the configured one, or is built from the resolved URL. In the
  \<^verbatim>\<open>catch\<close> block the status is tested and \<^verbatim>\<open>new AuthNeeded(url)\<close> is evaluated: the
  only declaration of \<^verbatim>\<open>url\<close> is the \<^verbatim>\<open>const\<close> inside the \<^verbatim>\<open>else\<close> block, whose
  scope ended with that block, and neither the function, the module nor its imports
  bind the name, so evaluating the argument throws a ReferenceError before
  \<^verbatim>\<open>AuthNeeded\<close> is constructed.
\<close>

definition loadSource ::
  "('s, 'r) env \<Rightarrow> radb \<Rightarrow> src \<Rightarrow> world \<Rightarrow> (error + 's option) \<times> world" where
  "loadSource env db sc w =
     (case (case loader db of
              Some l \<Rightarrow> Inr l
            | None \<Rightarrow>
                (case resolveURL env (path sc) (remoteUrlPrefix db) of
                   None \<Rightarrow> Inl TypeError
                 | Some u \<Rightarrow> Inr (createLoader u (new_Headers (headers db))))) of
        Inl e \<Rightarrow> (Inl e, w)
      | Inr l \<Rightarrow>
          (case getRange env l (start sc) (len sc) of
             Fetched s \<Rightarrow> (Inr (Some s), w\<lparr>fetched := fetched w @ [sc]\<rparr>)
           | FetchFailed st \<Rightarrow>
               (if st = Some 401 \<or> st = Some 403
                then Inl (ReferenceError ''url'')
                else Inr None,
                w\<lparr>fetched := fetched w @ [sc]\<rparr>)))"

subsection \<open>commitPayload\<close>

text \<open>
  \<^verbatim>\<open>await tx.done\<close>: when it succeeds the writes of the transaction are in the stores;
  a transaction one of whose operations failed commits nothing.
\<close>

definition tx_done ::
  "('s, 'r) env \<Rightarrow> payload_rec list \<Rightarrow> ref list \<Rightarrow> world \<Rightarrow> bool \<times> world" where
  "tx_done env prs rfs w =
     (if op_ok env w
      then (True, (ticked w)\<lparr>store_payload := store_payload w @ prs,
                             store_digestRef := store_digestRef w @ rfs\<rparr>)
      else (False, ticked w))"

text \<open>
  The body of the \<^verbatim>\<open>try\<close> block of \<^verbatim>\<open>commitPayload\<close>: \<open>Inl e\<close> when the exception \<open>e\<close>
  reaches the \<^verbatim>\<open>catch\<close>. Its storage operations are the \<^verbatim>\<open>put\<close> of the payload record,
  the \<^verbatim>\<open>get\<close> and the \<^verbatim>\<open>put\<close> of the ref row, and the end of the transaction.
\<close>

definition commit_try ::
  "('s, 'r) env \<Rightarrow> radb \<Rightarrow> jsval \<Rightarrow> string option \<Rightarrow> world \<Rightarrow> (error + unit) \<times> world" where
  "commit_try env db pl dg w =
     (if \<not> op_ok env w then (Inl StorageError, ticked w)
      else if useRefCounts db then
        (if \<not> op_ok env (ticked w) then (Inl StorageError, ticked (ticked w))
         else
           (case digestRef_get (store_digestRef w) dg of
              None \<Rightarrow>
                (case tx_done env [\<lparr>pr_payload = pl, pr_digest = dg\<rparr>] []
                        (ticked (ticked w)) of
                   (ok, w') \<Rightarrow> (if ok then Inr () else Inl StorageError, w'))
            | Some rf \<Rightarrow>
                (case js_length pl of
                   None \<Rightarrow> (Inl TypeError, ticked (ticked w))
                 | Some n \<Rightarrow>
                     (if \<not> op_ok env (ticked (ticked w))
                      then (Inl StorageError, ticked (ticked (ticked w)))
                      else
                        (case tx_done env [\<lparr>pr_payload = pl, pr_digest = dg\<rparr>]
                                [rf\<lparr>ref_size := n\<rparr>] (ticked (ticked (ticked w))) of
                           (ok, w') \<Rightarrow> (if ok then Inr () else Inl StorageError, w'))))))
      else
        (case tx_done env [\<lparr>pr_payload = pl, pr_digest = dg\<rparr>] [] (ticked w) of
           (ok, w') \<Rightarrow> (if ok then Inr () else Inl StorageError, w')))"

text \<open>
  \<^verbatim>\<open>commitPayload(payload, digest)\<close>. The transaction is opened before the \<^verbatim>\<open>try\<close>, so
  a failure to open it leaves the function; an exception inside the \<^verbatim>\<open>try\<close> is logged.
\<close>

definition commitPayload ::
  "('s, 'r) env \<Rightarrow> radb \<Rightarrow> jsval \<Rightarrow> string option \<Rightarrow> world \<Rightarrow> (error + unit) \<times> world" where
  "commitPayload env db pl dg w =
     (if \<not> truthy pl then (Inr (), w)
      else if \<not> op_ok env w then (Inl StorageError, ticked w)
      else
        (case commit_try env db pl dg (ticked w) of
           (Inl e, w') \<Rightarrow> (Inr (), log (PayloadCommitError e) w')
         | (Inr u, w') \<Rightarrow> (Inr (), w')))"

subsection \<open>PayloadBufferingReader\<close>

text \<open>
  The fields of a \<^verbatim>\<open>PayloadBufferingReader\<close>. Its field \<^verbatim>\<open>db\<close> refers to the
  \<^verbatim>\<open>RemoteArchiveDB\<close> that built it; the functions below take that object as an
  argument.
\<close>

record 'r PayloadBufferingReader =
  reader :: 'r
  pbr_digest :: "string option"
  pbr_url :: string
  chunks :: "bytes list"
  pbr_size :: nat
  fullbuff :: "bytes option"
  commit :: bool
  alreadyRead :: bool

definition new_PayloadBufferingReader ::
  "'r \<Rightarrow> string option \<Rightarrow> string \<Rightarrow> 'r PayloadBufferingReader" where
  "new_PayloadBufferingReader r dg u =
     \<lparr>reader = r, pbr_digest = dg, pbr_url = u, chunks = [], pbr_size = 0,
      fullbuff = None, commit = True, alreadyRead = False\<rparr>"

text \<open>\<^verbatim>\<open>setLimitSkip(limit = -1, skip = 0)\<close>, the defaults applied by the caller.\<close>

definition setLimitSkip ::
  "('s, 'r) env \<Rightarrow> int \<Rightarrow> int \<Rightarrow> 'r PayloadBufferingReader \<Rightarrow> 'r PayloadBufferingReader" where
  "setLimitSkip env limit skip p =
     (if limit \<noteq> - 1 \<and> skip > 0
      then p\<lparr>commit := False, reader := rd_setLimitSkip env limit skip (reader p)\<rparr>
      else p\<lparr>reader := rd_setLimitSkip env limit skip (reader p)\<rparr>)"

text \<open>
  Modelled from the spec: \<^verbatim>\<open>BaseAsyncIterReader.concatChunks\<close> of the library warcio
  "concatenates buffered chunks into one contiguous buffer"; its second argument is
  the total number of bytes of the chunks.
\<close>

definition concatChunks :: "bytes list \<Rightarrow> nat \<Rightarrow> bytes" where
  "concatChunks cs n = concat cs"

text \<open>
  The async generator, as a state machine. A generator object is \<open>GenStart\<close> before
  its first \<^verbatim>\<open>next()\<close>, \<open>GenSuspended\<close> at the \<^verbatim>\<open>yield\<close>, and \<open>GenFinished\<close> once its body
  has returned or thrown. One \<^verbatim>\<open>next()\<close> gives a chunk, the end of the iteration, or an
  exception.
\<close>

datatype gen = GenStart | GenSuspended | GenFinished

datatype iter = IterYield bytes | IterDone | IterThrow error

text \<open>The code after the loop: lines 235 to 245.\<close>

definition complete ::
  "('s, 'r) env \<Rightarrow> radb \<Rightarrow> 'r PayloadBufferingReader \<Rightarrow> world \<Rightarrow>
     iter \<times> gen \<times> 'r PayloadBufferingReader \<times> world" where
  "complete env db p w =
     (if rd_limit env (reader p) \<noteq> 0
      then (IterDone, GenFinished,
            p\<lparr>fullbuff := Some (concatChunks (chunks p) (pbr_size p)), chunks := [],
              alreadyRead := True\<rparr>,
            log (NotConsumed (rd_limit env (reader p))) w)
      else if commit p
      then
        (case commitPayload env db (JBytes (concatChunks (chunks p) (pbr_size p)))
                (pbr_digest p) w of
           (Inl e, w') \<Rightarrow>
             (IterThrow e, GenFinished,
              p\<lparr>fullbuff := Some (concatChunks (chunks p) (pbr_size p))\<rparr>, w')
         | (Inr u, w') \<Rightarrow>
             (IterDone, GenFinished,
              p\<lparr>fullbuff := Some (concatChunks (chunks p) (pbr_size p)), chunks := [],
                alreadyRead := True\<rparr>,
              w'))
      else (IterDone, GenFinished,
            p\<lparr>fullbuff := Some (concatChunks (chunks p) (pbr_size p)), chunks := [],
              alreadyRead := True\<rparr>,
            w))"

text \<open>One turn of the \<^verbatim>\<open>for await\<close> loop: the underlying reader is advanced once.\<close>

definition advance ::
  "('s, 'r) env \<Rightarrow> radb \<Rightarrow> 'r PayloadBufferingReader \<Rightarrow> world \<Rightarrow>
     iter \<times> gen \<times> 'r PayloadBufferingReader \<times> world" where
  "advance env db p w =
     (case rd_next env (reader p) of
        RdChunk c r' \<Rightarrow>
          (IterYield c, GenSuspended,
           p\<lparr>reader := r', chunks := chunks p @ [c], pbr_size := pbr_size p + length c\<rparr>,
           w)
      | RdThrow r' \<Rightarrow> (IterThrow StreamError, GenFinished, p\<lparr>reader := r'\<rparr>, w)
      | RdDone r' \<Rightarrow> complete env db (p\<lparr>reader := r'\<rparr>) w)"

text \<open>One call of \<^verbatim>\<open>next()\<close> on a generator of the reader.\<close>

fun gen_next ::
  "('s, 'r) env \<Rightarrow> radb \<Rightarrow> gen \<Rightarrow> 'r PayloadBufferingReader \<Rightarrow> world \<Rightarrow>
     iter \<times> gen \<times> 'r PayloadBufferingReader \<times> world" where
  "gen_next env db GenStart p w =
     (if alreadyRead p then (IterDone, GenFinished, p, w) else advance env db p w)"
| "gen_next env db GenSuspended p w = advance env db p w"
| "gen_next env db GenFinished p w = (IterDone, GenFinished, p, w)"

text \<open>A consumer that calls \<^verbatim>\<open>next()\<close> \<open>n\<close> times, with what each call gave.\<close>

fun gen_run ::
  "('s, 'r) env \<Rightarrow> radb \<Rightarrow> nat \<Rightarrow> gen \<Rightarrow> 'r PayloadBufferingReader \<Rightarrow> world \<Rightarrow>
     iter list \<times> gen \<times> 'r PayloadBufferingReader \<times> world" where
  "gen_run env db 0 g p w = ([], g, p, w)"
| "gen_run env db (Suc n) g p w =
     (case gen_next env db g p w of
        (r, g1, p1, w1) \<Rightarrow>
          (case gen_run env db n g1 p1 w1 of
             (rs, g2, p2, w2) \<Rightarrow> (r # rs, g2, p2, w2)))"

text \<open>
  What a client can do with a reader: set the range, ask for a new generator (which
  replaces the one it held), or advance the generator it holds.
\<close>

datatype reader_op = SetLimitSkip int int | Iterate | Next

fun reader_step ::
  "('s, 'r) env \<Rightarrow> radb \<Rightarrow> reader_op \<Rightarrow> gen \<times> 'r PayloadBufferingReader \<times> world \<Rightarrow>
     gen \<times> 'r PayloadBufferingReader \<times> world" where
  "reader_step env db (SetLimitSkip limit skip) (g, p, w) =
     (g, setLimitSkip env limit skip p, w)"
| "reader_step env db Iterate (g, p, w) = (GenStart, p, w)"
| "reader_step env db Next (g, p, w) = snd (gen_next env db g p w)"

fun reader_steps ::
  "('s, 'r) env \<Rightarrow> radb \<Rightarrow> reader_op list \<Rightarrow> gen \<times> 'r PayloadBufferingReader \<times> world \<Rightarrow>
     gen \<times> 'r PayloadBufferingReader \<times> world" where
  "reader_steps env db [] s = s"
| "reader_steps env db (x # xs) s = reader_steps env db xs (reader_step env db x s)"

subsection \<open>loadPayload\<close>

text \<open>What \<^verbatim>\<open>loadPayload\<close> returns: \<^verbatim>\<open>null\<close>, bytes, a buffering reader or a bare reader.\<close>

datatype 'r pval =
    PNull
  | PBytes bytes
  | PReader "'r PayloadBufferingReader"
  | PRaw 'r

fun is_null :: "'r pval \<Rightarrow> bool" where
  "is_null PNull = True"
| "is_null (PBytes b) = False"
| "is_null (PReader p) = False"
| "is_null (PRaw r) = False"

text \<open>
  Lines 62 to 91: the local lookup, the remote fetch, the parse and the three checks.
  \<open>Finished\<close> is a \<^verbatim>\<open>return\<close> or a throw; \<open>Validated\<close> carries the local payload and the
  record that passed the checks. The values compared with \<^verbatim>\<open>!=\<close> are strings, or a
  string and a missing value, on which \<^verbatim>\<open>!=\<close> is inequality.
\<close>

datatype 'r fetched_record =
    Finished "error + 'r pval" world
  | Validated "'r pval" "'r remote" world

definition fetchRecord ::
  "('s, 'r) env \<Rightarrow> radb \<Rightarrow> cdx \<Rightarrow> world \<Rightarrow> 'r fetched_record" where
  "fetchRecord env db c w =
     (case (case superLoadPayload env (store_payload w) c of
              None \<Rightarrow> Inr PNull
            | Some b \<Rightarrow>
                (if respHeaders c \<noteq> None \<and> mime c \<noteq> Some ''warc/revisit''
                 then Inl (PBytes b) else Inr (PBytes b))) of
        Inl found \<Rightarrow> Finished (Inr found) w
      | Inr pl \<Rightarrow>
          (case loadSource env db (source c) w of
             (Inl e, w1) \<Rightarrow> Finished (Inl e) w1
           | (Inr strm, w1) \<Rightarrow>
               (case parseRecord env strm of
                  None \<Rightarrow> Finished (Inr PNull) (log (NoRecordLoaded (url c)) w1)
                | Some rm \<Rightarrow>
                    (if remote_url rm \<noteq> url c
                     then Finished (Inr PNull) (log (WrongUrl (url c) (remote_url rm)) w1)
                     else if remote_ts rm \<noteq> ts c
                     then Finished (Inr PNull)
                            (log (WrongTimestamp (ts c) (remote_ts rm)) w1)
                     else if remote_digest rm \<noteq> digest c
                     then Finished (Inr PNull)
                            (log (WrongDigest (digest c) (remote_digest rm)) w1)
                     else Validated pl rm w1))))"

text \<open>
  Lines 110 to 117: the entry takes the original's headers and mime, loses its inline
  payload and is put into the catalog. The \<^verbatim>\<open>put\<close> is awaited outside any \<^verbatim>\<open>try\<close>.
\<close>

definition collapseRevisit ::
  "('s, 'r) env \<Rightarrow> cdx \<Rightarrow> cdx \<Rightarrow> 'r pval \<Rightarrow> world \<Rightarrow> (error + 'r pval) \<times> cdx \<times> world" where
  "collapseRevisit env c orig pl w =
     (if op_ok env w
      then (Inr pl,
            c\<lparr>respHeaders := respHeaders orig, mime := mime orig, payload := None\<rparr>,
            (ticked w)\<lparr>store_resources := store_resources w @
               [c\<lparr>respHeaders := respHeaders orig, mime := mime orig, payload := None\<rparr>]\<rparr>)
      else (Inl StorageError,
            c\<lparr>respHeaders := respHeaders orig, mime := mime orig, payload := None\<rparr>,
            ticked w))"

text \<open>Lines 147 to 151: the assignments to the entry inside the \<^verbatim>\<open>try\<close> block.\<close>

definition assignRemote :: "cdx \<Rightarrow> 'r remote \<Rightarrow> cdx" where
  "assignRemote c rm =
     c\<lparr>respHeaders := remote_respHeaders rm, digest := remote_digest rm,
       extraOpts := (if remote_extraOpts rm \<noteq> None then remote_extraOpts rm
                     else extraOpts c)\<rparr>"

text \<open>The \<^verbatim>\<open>catch\<close> block of lines 156 to 159: two warnings.\<close>

definition warnUpdate :: "cdx \<Rightarrow> error \<Rightarrow> world \<Rightarrow> world" where
  "warnUpdate c e w = log (LoggedError e) (log (ResourceUpdateError (url c)) w)"

text \<open>
  Lines 140 to 159, the \<^verbatim>\<open>try\<close> block and its \<^verbatim>\<open>catch\<close>: the transaction on the
  catalog is opened, an inline payload is committed, the entry is assigned, put and
  the transaction awaited. The call on line 144 is \<^verbatim>\<open>this.commitPayload(digest)\<close>: the
  digest is bound to the parameter \<^verbatim>\<open>payload\<close> and the parameter \<^verbatim>\<open>digest\<close> is
  \<^verbatim>\<open>undefined\<close>.
\<close>

definition updateResource ::
  "('s, 'r) env \<Rightarrow> radb \<Rightarrow> cdx \<Rightarrow> 'r remote \<Rightarrow> world \<Rightarrow> cdx \<times> world" where
  "updateResource env db c rm w =
     (if \<not> op_ok env w then (c, warnUpdate c StorageError (ticked w))
      else
        (case (if remote_payload rm \<noteq> None
               then commitPayload env db (js_of_str (remote_digest rm)) None (ticked w)
               else (Inr (), ticked w)) of
           (Inl e, w1) \<Rightarrow> (c, warnUpdate c e w1)
         | (Inr u, w1) \<Rightarrow>
             (if \<not> op_ok env w1
              then (assignRemote c rm, warnUpdate c StorageError (ticked w1))
              else if \<not> op_ok env (ticked w1)
              then (assignRemote c rm, warnUpdate c StorageError (ticked (ticked w1)))
              else (assignRemote c rm,
                    (ticked (ticked w1))\<lparr>store_resources :=
                       store_resources w1 @ [assignRemote c rm]\<rparr>))))"

text \<open>Lines 128 to 165: the record is not a revisit.\<close>

definition resolvePlain ::
  "('s, 'r) env \<Rightarrow> radb \<Rightarrow> cdx \<Rightarrow> 'r remote \<Rightarrow> world \<Rightarrow> (error + 'r pval) \<times> cdx \<times> world" where
  "resolvePlain env db c rm w =
     (if remote_payload rm = None \<and> remote_reader rm = None then (Inr PNull, c, w)
      else
        (case updateResource env db c rm w of
           (c', w') \<Rightarrow>
             (case remote_payload rm of
                Some b \<Rightarrow> (Inr (PBytes b), c', w')
              | None \<Rightarrow>
                  (case remote_reader rm of
                     None \<Rightarrow> (Inr PNull, c', w')
                   | Some r \<Rightarrow>
                       (if truthy_str (remote_digest rm)
                        then (Inr (PReader (new_PayloadBufferingReader r (remote_digest rm)
                                              (url c))), c', w')
                        else (Inr (PRaw r), c', w'))))))"

text \<open>
  \<^verbatim>\<open>loadPayload(cdx, depth = 0)\<close>. The result is what is returned or thrown, the entry
  as the call leaves it, and the world. The entry found by \<^verbatim>\<open>lookupUrl\<close> is resolved
  by the recursive call, which may update it, before its headers and mime are copied.
\<close>

function loadPayload ::
  "('s, 'r) env \<Rightarrow> radb \<Rightarrow> cdx \<Rightarrow> nat \<Rightarrow> world \<Rightarrow> (error + 'r pval) \<times> cdx \<times> world" where
  "loadPayload env db c depth w =
     (case fetchRecord env db c w of
        Finished res w1 \<Rightarrow> (res, c, w1)
      | Validated pl rm w1 \<Rightarrow>
          (if truthy_str (remote_origURL rm)
           then
             (case lookupUrl env (store_resources w1) (case_option [] id (remote_origURL rm))
                     (remote_origTS rm) of
                None \<Rightarrow> (Inr PNull, c, w1)
              | Some origResult \<Rightarrow>
                  (if is_null pl
                   then
                     (if depth < 2
                      then
                        (case loadPayload env db origResult (depth + 1) w1 of
                           (Inl e, orig', w2) \<Rightarrow> (Inl e, c, w2)
                         | (Inr p, orig', w2) \<Rightarrow>
                             (if is_null p then (Inr PNull, c, w2)
                              else collapseRevisit env c orig' p w2))
                      else (Inr PNull, c, log (RevisitLoop (remote_url rm)) w1))
                   else collapseRevisit env c origResult pl w1))
           else resolvePlain env db c rm w1))"
  by pat_completeness auto
termination
  by (relation "measure (\<lambda>(env, db, c, depth, w). 2 - depth)") auto

subsection \<open>Notions used in the statements\<close>

text \<open>
  A generator that will advance the underlying reader at its next \<^verbatim>\<open>next()\<close>: it is
  suspended in the loop, or has not started and the reader has not been read yet.
\<close>

definition active :: "gen \<Rightarrow> 'r PayloadBufferingReader \<Rightarrow> bool" where
  "active g p =
     (case g of GenStart \<Rightarrow> \<not> alreadyRead p | GenSuspended \<Rightarrow> True | GenFinished \<Rightarrow> False)"


text \<open>The line that the first failing check of lines 78 to 91 logs.\<close>

definition mismatchLog :: "cdx \<Rightarrow> 'r remote \<Rightarrow> logmsg" where
  "mismatchLog c rm =
     (if remote_url rm \<noteq> url c then WrongUrl (url c) (remote_url rm)
      else if remote_ts rm \<noteq> ts c then WrongTimestamp (ts c) (remote_ts rm)
      else WrongDigest (digest c) (remote_digest rm))"

text \<open>
  \<open>c'\<close> differs from \<open>c\<close> at most in \<^verbatim>\<open>respHeaders\<close>, \<^verbatim>\<open>mime\<close>, \<^verbatim>\<open>extraOpts\<close> and
  \<^verbatim>\<open>payload\<close>.
\<close>

definition same_identity :: "cdx \<Rightarrow> cdx \<Rightarrow> bool" where
  "same_identity c c' =
     (c' = c\<lparr>respHeaders := respHeaders c', mime := mime c', extraOpts := extraOpts c',
             payload := payload c'\<rparr>)"

text \<open>
  In the world \<open>w\<close>, the entry \<open>x\<close> has no local payload, the record fetched for it
  passes the three checks and is a revisit, and the catalog has \<open>y\<close> for the
  original that the record names.
\<close>

definition revisit_of :: "('s, 'r) env \<Rightarrow> radb \<Rightarrow> world \<Rightarrow> cdx \<Rightarrow> cdx \<Rightarrow> bool" where
  "revisit_of env db w x y =
     (superLoadPayload env (store_payload w) x = None \<and>
      (case fst (loadSource env db (source x) w) of
         Inl e \<Rightarrow> False
       | Inr strm \<Rightarrow>
           (case parseRecord env strm of
              None \<Rightarrow> False
            | Some rm \<Rightarrow>
                remote_url rm = url x \<and> remote_ts rm = ts x \<and> remote_digest rm = digest x
                \<and> truthy_str (remote_origURL rm)
                \<and> lookupUrl env (store_resources w) (case_option [] id (remote_origURL rm))
                      (remote_origTS rm) = Some y)))"

subsection \<open>A concrete archive\<close>

text \<open>
  An instance of the environment, on which the functions can be run: streams are
  named by the URL they were fetched from, and an underlying reader is the list of
  the chunks it still has to give, with the number of bytes it still expects.
\<close>

type_synonym list_reader = "bytes list \<times> int"

fun lr_next :: "list_reader \<Rightarrow> list_reader rd_step" where
  "lr_next ([], l) = RdDone ([], l)"
| "lr_next (c # cs, l) = RdChunk c (cs, l - int (length c))"

fun lr_setLimitSkip :: "int \<Rightarrow> int \<Rightarrow> list_reader \<Rightarrow> list_reader" where
  "lr_setLimitSkip limit skip (cs, l) =
     (if limit < 0 then ([drop (nat skip) (concat cs)], limit)
      else ([take (nat limit) (drop (nat skip) (concat cs))], limit))"

definition test_env ::
  "(string \<Rightarrow> string fetch) \<Rightarrow> (string \<Rightarrow> list_reader remote option) \<Rightarrow> (nat \<Rightarrow> bool) \<Rightarrow>
     (string, list_reader) env" where
  "test_env net parse fl =
     \<lparr>resolveURL = (\<lambda>p b. case b of None \<Rightarrow> None | Some pre \<Rightarrow> Some (pre @ p)),
      getRange = (\<lambda>l s n. net (loader_url l)),
      parseRecord = (\<lambda>s. case s of None \<Rightarrow> None | Some x \<Rightarrow> parse x),
      superLoadPayload = (\<lambda>st c. payload c),
      lookupUrl = (\<lambda>rs u t. List.find (\<lambda>c. url c = u \<and> Some (ts c) = t) (rev rs)),
      fails = fl,
      rd_next = lr_next,
      rd_limit = snd,
      rd_setLimitSkip = lr_setLimitSkip\<rparr>"

definition world0 :: world where
  "world0 = \<lparr>store_resources = [], store_payload = [], store_digestRef = [],
             console = [], fetched = [], tick = 0\<rparr>"

definition db_prefix :: radb where
  "db_prefix = RemoteArchiveDB ''coll'' (PrefixString ''http://archive/'') None"

definition db_loader :: radb where
  "db_loader =
     RemoteArchiveDB ''coll''
       (LoaderObject \<lparr>loader_url = ''http://archive/all.warc'', loader_headers = None\<rparr>) None"

text \<open>The entry of the spec's example and a record that matches it, with inline bytes.\<close>

definition src_a :: src where
  "src_a = \<lparr>path = ''1.warc'', start = 0, len = 500\<rparr>"

definition cdx_a :: cdx where
  "cdx_a = \<lparr>url = ''http://x/a'', ts = ''20200101'', digest = Some ''sha1:ABC'',
            mime = None, respHeaders = None, source = src_a, extraOpts = None,
            payload = None\<rparr>"

definition rec_a :: "list_reader remote" where
  "rec_a = \<lparr>remote_url = ''http://x/a'', remote_ts = ''20200101'',
            remote_digest = Some ''sha1:ABC'',
            remote_respHeaders = Some [(''content-type'', ''text/plain'')],
            remote_extraOpts = None, remote_payload = Some [1, 2, 3],
            remote_reader = None, remote_origURL = None, remote_origTS = None\<rparr>"

definition net_ok :: "string \<Rightarrow> string fetch" where
  "net_ok u = Fetched u"

definition net_status :: "nat \<Rightarrow> string \<Rightarrow> string fetch" where
  "net_status st u = FetchFailed (Some st)"

definition parse_a :: "string \<Rightarrow> list_reader remote option" where
  "parse_a s = (if s = ''http://archive/1.warc'' then Some rec_a else None)"

definition no_fault :: "nat \<Rightarrow> bool" where
  "no_fault k = False"

definition env_a :: "(string, list_reader) env" where
  "env_a = test_env net_ok parse_a no_fault"

text \<open>A reader over a stream of two chunks, three bytes in all, of which three are expected.\<close>

definition pbr_a :: "list_reader PayloadBufferingReader" where
  "pbr_a = new_PayloadBufferingReader ([[1, 2], [3]], 3) (Some ''sha1:ABC'') ''http://x/a''"

text \<open>
  A reader that has passed on one chunk of two bytes, and whose underlying stream has
  ended although one more byte was expected.
\<close>

definition pbr_trunc :: "list_reader PayloadBufferingReader" where
  "pbr_trunc =
     \<lparr>reader = ([], 1), pbr_digest = Some ''sha1:ABC'', pbr_url = ''http://x/a'',
      chunks = [[1, 2]], pbr_size = 2, fullbuff = None, commit = True,
      alreadyRead = False\<rparr>"

text \<open>
  A reader that has passed on both chunks of its stream, at the point where the
  underlying stream is about to report its end with nothing left to expect.
\<close>

definition pbr_end :: "list_reader PayloadBufferingReader" where
  "pbr_end =
     \<lparr>reader = ([], 0), pbr_digest = Some ''sha1:ABC'', pbr_url = ''http://x/a'',
      chunks = [[1, 2], [3]], pbr_size = 3, fullbuff = None, commit = True,
      alreadyRead = False\<rparr>"

text \<open>The spec's second example: the fetched record has another digest.\<close>

definition parse_xyz :: "string \<Rightarrow> list_reader remote option" where
  "parse_xyz s =
     (if s = ''http://archive/1.warc'' then Some (rec_a\<lparr>remote_digest := Some ''sha1:XYZ''\<rparr>)
      else None)"

definition env_xyz :: "(string, list_reader) env" where
  "env_xyz = test_env net_ok parse_xyz no_fault"

text \<open>Two entries whose records are revisits of each other.\<close>

definition src_p :: src where
  "src_p = \<lparr>path = ''p.warc'', start = 0, len = 300\<rparr>"
definition src_q :: src where
  "src_q = \<lparr>path = ''q.warc'', start = 300, len = 300\<rparr>"

definition cdx_p :: cdx where
  "cdx_p = \<lparr>url = ''http://x/p'', ts = ''20200101'', digest = Some ''sha1:PPP'',
            mime = Some ''warc/revisit'', respHeaders = None, source = src_p,
            extraOpts = None, payload = None\<rparr>"

definition cdx_q :: cdx where
  "cdx_q = \<lparr>url = ''http://x/q'', ts = ''20200202'', digest = Some ''sha1:PPP'',
            mime = Some ''warc/revisit'', respHeaders = None, source = src_q,
            extraOpts = None, payload = None\<rparr>"

definition revisit_rec ::
  "string \<Rightarrow> string \<Rightarrow> string \<Rightarrow> string \<Rightarrow> string \<Rightarrow> list_reader remote" where
  "revisit_rec u t d ou ot =
     \<lparr>remote_url = u, remote_ts = t, remote_digest = Some d, remote_respHeaders = None,
      remote_extraOpts = None, remote_payload = None, remote_reader = None,
      remote_origURL = Some ou, remote_origTS = Some ot\<rparr>"

definition parse_pq :: "string \<Rightarrow> list_reader remote option" where
  "parse_pq s =
     (if s = ''http://archive/p.warc''
      then Some (revisit_rec ''http://x/p'' ''20200101'' ''sha1:PPP'' ''http://x/q'' ''20200202'')
      else if s = ''http://archive/q.warc''
      then Some (revisit_rec ''http://x/q'' ''20200202'' ''sha1:PPP'' ''http://x/p'' ''20200101'')
      else None)"

definition env_pq :: "(string, list_reader) env" where
  "env_pq = test_env net_ok parse_pq no_fault"

definition world_pq :: world where
  "world_pq = world0\<lparr>store_resources := [cdx_p, cdx_q]\<rparr>"

text \<open>
  An entry whose record is a revisit of the entry \<open>cdx_a\<close>, in a catalog that holds
  \<open>cdx_a\<close>; and the storage operation number \<open>n\<close> failing.
\<close>

definition src_b :: src where
  "src_b = \<lparr>path = ''2.warc'', start = 0, len = 200\<rparr>"

definition cdx_b :: cdx where
  "cdx_b = \<lparr>url = ''http://x/b'', ts = ''20210101'', digest = Some ''sha1:ABC'',
            mime = Some ''warc/revisit'', respHeaders = None, source = src_b,
            extraOpts = None, payload = None\<rparr>"

definition parse_ab :: "string \<Rightarrow> list_reader remote option" where
  "parse_ab s =
     (if s = ''http://archive/2.warc''
      then Some (revisit_rec ''http://x/b'' ''20210101'' ''sha1:ABC'' ''http://x/a'' ''20200101'')
      else parse_a s)"

definition world_a :: world where
  "world_a = world0\<lparr>store_resources := [cdx_a]\<rparr>"

definition fault_at :: "nat \<Rightarrow> nat \<Rightarrow> bool" where
  "fault_at n k = (k = n)"

section \<open>Properties\<close>

subsection \<open>The world under logging and storage operations\<close>

lemma ticked_fields [simp]:
  "store_resources (ticked w) = store_resources w"
  "store_payload (ticked w) = store_payload w"
  "store_digestRef (ticked w) = store_digestRef w"
  "console (ticked w) = console w"
  "fetched (ticked w) = fetched w"
  "tick (ticked w) = Suc (tick w)"
  by (simp_all add: ticked_def)

lemma log_fields [simp]:
  "store_resources (log m w) = store_resources w"
  "store_payload (log m w) = store_payload w"
  "store_digestRef (log m w) = store_digestRef w"
  "console (log m w) = console w @ [m]"
  "fetched (log m w) = fetched w"
  "tick (log m w) = tick w"
  by (simp_all add: log_def)

subsection \<open>commitPayload\<close>

text \<open>The \<^verbatim>\<open>try\<close> block writes the record it was given, or nothing.\<close>

lemma commit_try_payload:
  "store_payload (snd (commit_try env db pl dg w)) =
     (case fst (commit_try env db pl dg w) of
        Inl e \<Rightarrow> store_payload w
      | Inr u \<Rightarrow> store_payload w @ [\<lparr>pr_payload = pl, pr_digest = dg\<rparr>])"
  by (simp add: commit_try_def tx_done_def split: option.splits prod.splits)



lemma commitPayload_frame:
  "store_resources (snd (commitPayload env db pl dg w)) = store_resources w"
  "fetched (snd (commitPayload env db pl dg w)) = fetched w"
  by (simp_all add: commitPayload_def commit_try_def tx_done_def
      split: option.splits prod.splits sum.splits)


subsection \<open>The buffering reader\<close>

lemma gen_run_finished:
  "gen_run env db n GenFinished p w = (replicate n IterDone, GenFinished, p, w)"
  by (induction n) simp_all

lemma gen_next_active: "active g p \<Longrightarrow> gen_next env db g p w = advance env db p w"
  by (cases g) (simp_all add: active_def)





lemma advance_done_alreadyRead:
  "advance env db p w = (IterDone, g1, p1, w1) \<Longrightarrow> alreadyRead p1"
  by (auto simp: advance_def complete_def
      split: rd_step.splits if_splits prod.splits sum.splits)




text \<open>
  C6. When the underlying stream reports its end to an active generator while the
  underlying reader's \<^verbatim>\<open>limit\<close> is not \<open>0\<close>, the generator finishes, the only effect
  on the world is one warning on the console with the number of bytes left, and so
  nothing is committed: the payload store, the ref store and the count of storage
  operations are what they were.
\<close>

theorem leftover_bytes_skip_commit:
  assumes "active g p" and "rd_next env (reader p) = RdDone r'" and "rd_limit env r' \<noteq> 0"
  shows "gen_next env db g p w =
           (IterDone, GenFinished,
            p\<lparr>reader := r', fullbuff := Some (concat (chunks p)), chunks := [],
              alreadyRead := True\<rparr>,
            w\<lparr>console := console w @ [NotConsumed (rd_limit env r')]\<rparr>)"
  using assms
  by (simp add: gen_next_active advance_def complete_def concatChunks_def log_def)

theorem leftover_bytes_skip_commit_witness:
  "active GenSuspended pbr_trunc \<and> rd_next env_a (reader pbr_trunc) = RdDone ([], 1)
   \<and> rd_limit env_a ([], 1) \<noteq> 0
   \<and> gen_next env_a db_prefix GenSuspended pbr_trunc world0 =
       (IterDone, GenFinished,
        pbr_trunc\<lparr>reader := ([], 1), fullbuff := Some [1, 2], chunks := [],
                  alreadyRead := True\<rparr>,
        world0\<lparr>console := [NotConsumed 1]\<rparr>)"
proof -
  have h1: "active GenSuspended pbr_trunc" by (simp add: active_def)
  have h2: "rd_next env_a (reader pbr_trunc) = RdDone ([], 1)"
    by (simp add: env_a_def test_env_def pbr_trunc_def)
  have h3: "rd_limit env_a ([], 1) \<noteq> 0" by (simp add: env_a_def test_env_def)
  have v: "rd_limit env_a ([], 1) = 1" by (simp add: env_a_def test_env_def)
  have c: "concat (chunks pbr_trunc) = [1, 2]" "console world0 = []"
    by (simp_all add: pbr_trunc_def world0_def)
  from leftover_bytes_skip_commit [OF h1 h2 h3, of db_prefix world0] h1 h2 h3 v c
  show ?thesis by simp
qed

text \<open>Without committing enabled, no operation on the reader touches a store.\<close>

lemma advance_no_commit:
  assumes "\<not> commit p"
  shows "\<not> commit (fst (snd (snd (advance env db p w))))
       \<and> store_payload (snd (snd (snd (advance env db p w)))) = store_payload w
       \<and> store_digestRef (snd (snd (snd (advance env db p w)))) = store_digestRef w
       \<and> store_resources (snd (snd (snd (advance env db p w)))) = store_resources w
       \<and> tick (snd (snd (snd (advance env db p w)))) = tick w"
  using assms by (simp add: advance_def complete_def split: rd_step.splits)

lemma gen_next_no_commit:
  assumes "\<not> commit p"
  shows "\<not> commit (fst (snd (snd (gen_next env db g p w))))
       \<and> store_payload (snd (snd (snd (gen_next env db g p w)))) = store_payload w
       \<and> store_digestRef (snd (snd (snd (gen_next env db g p w)))) = store_digestRef w
       \<and> store_resources (snd (snd (snd (gen_next env db g p w)))) = store_resources w
       \<and> tick (snd (snd (snd (gen_next env db g p w)))) = tick w"
  using assms advance_no_commit [OF assms, of env db w] by (cases g) simp_all

lemma setLimitSkip_keeps_disabled: "\<not> commit p \<Longrightarrow> \<not> commit (setLimitSkip env l s p)"
  by (simp add: setLimitSkip_def)

lemma reader_step_no_commit:
  assumes "\<not> commit (fst (snd s))"
  shows "\<not> commit (fst (snd (reader_step env db x s)))
       \<and> store_payload (snd (snd (reader_step env db x s))) = store_payload (snd (snd s))
       \<and> store_digestRef (snd (snd (reader_step env db x s))) = store_digestRef (snd (snd s))
       \<and> store_resources (snd (snd (reader_step env db x s))) = store_resources (snd (snd s))
       \<and> tick (snd (snd (reader_step env db x s))) = tick (snd (snd s))"
proof (cases s)
  case (fields g p w)
  with assms have nc: "\<not> commit p" by simp
  show ?thesis
  proof (cases x)
    case (SetLimitSkip l k)
    with fields setLimitSkip_keeps_disabled [OF nc] show ?thesis by simp
  next
    case Iterate
    with fields nc show ?thesis by simp
  next
    case Next
    with fields gen_next_no_commit [OF nc, of env db g w] show ?thesis by simp
  qed
qed

lemma reader_steps_no_commit:
  "\<not> commit (fst (snd s)) \<Longrightarrow>
     \<not> commit (fst (snd (reader_steps env db xs s)))
     \<and> store_payload (snd (snd (reader_steps env db xs s))) = store_payload (snd (snd s))
     \<and> store_digestRef (snd (snd (reader_steps env db xs s))) = store_digestRef (snd (snd s))
     \<and> store_resources (snd (snd (reader_steps env db xs s))) = store_resources (snd (snd s))
     \<and> tick (snd (snd (reader_steps env db xs s))) = tick (snd (snd s))"
proof (induction xs arbitrary: s)
  case Nil
  then show ?case by simp
next
  case (Cons x xs)
  from reader_step_no_commit [OF Cons.prems, of env db x]
  have st: "\<not> commit (fst (snd (reader_step env db x s)))"
    and eqs: "store_payload (snd (snd (reader_step env db x s))) = store_payload (snd (snd s))"
      "store_digestRef (snd (snd (reader_step env db x s))) = store_digestRef (snd (snd s))"
      "store_resources (snd (snd (reader_step env db x s))) = store_resources (snd (snd s))"
      "tick (snd (snd (reader_step env db x s))) = tick (snd (snd s))"
    by simp_all
  from Cons.IH [OF st] eqs show ?case by simp
qed

text \<open>
  C7. After \<^verbatim>\<open>setLimitSkip(limit, skip)\<close> with a limit other than \<open>-1\<close> and a positive
  skip, whatever the client does next with the reader, in any order and number (more
  calls of \<^verbatim>\<open>setLimitSkip\<close> with any arguments, new generators, calls of \<^verbatim>\<open>next()\<close>,
  and so also \<^verbatim>\<open>readFully\<close>, which is a new generator advanced to its end), the payload
  store is what it was, no storage operation has even been attempted, and committing
  is still disabled.
\<close>

theorem partial_range_never_commits:
  assumes "limit \<noteq> - 1" and "0 < skip"
  shows "store_payload (snd (snd (reader_steps env db xs
            (g, setLimitSkip env limit skip p, w)))) = store_payload w
       \<and> tick (snd (snd (reader_steps env db xs
            (g, setLimitSkip env limit skip p, w)))) = tick w
       \<and> \<not> commit (fst (snd (reader_steps env db xs
            (g, setLimitSkip env limit skip p, w))))"
proof -
  have "\<not> commit (fst (snd (g, setLimitSkip env limit skip p, w)))"
    using assms by (simp add: setLimitSkip_def)
  from reader_steps_no_commit [OF this, of env db xs] show ?thesis by simp
qed

theorem partial_range_never_commits_witness:
  "(2::int) \<noteq> - 1 \<and> (0::int) < 1
   \<and> reader_steps env_a db_prefix [Iterate, Next, Next, Next]
        (GenStart, setLimitSkip env_a 2 1 pbr_a, world0) =
       (GenFinished,
        \<lparr>reader = ([], 0), pbr_digest = Some ''sha1:ABC'', pbr_url = ''http://x/a'',
         chunks = [], pbr_size = 2, fullbuff = Some [2, 3], commit = False,
         alreadyRead = True\<rparr>,
        world0)
   \<and> store_payload (snd (snd (reader_steps env_a db_prefix [Iterate, Next, Next, Next]
        (GenStart, setLimitSkip env_a 2 1 pbr_a, world0)))) = []"
proof -
  have h1: "(2::int) \<noteq> - 1" and h2: "(0::int) < 1" by simp_all
  have run: "reader_steps env_a db_prefix [Iterate, Next, Next, Next]
        (GenStart, setLimitSkip env_a 2 1 pbr_a, world0) =
       (GenFinished,
        \<lparr>reader = ([], 0), pbr_digest = Some ''sha1:ABC'', pbr_url = ''http://x/a'',
         chunks = [], pbr_size = 2, fullbuff = Some [2, 3], commit = False,
         alreadyRead = True\<rparr>,
        world0)"
    by code_simp
  have w0: "store_payload world0 = []" by (simp add: world0_def)
  from partial_range_never_commits [OF h1 h2, of env_a db_prefix
      "[Iterate, Next, Next, Next]" GenStart pbr_a world0] w0
  have "store_payload (snd (snd (reader_steps env_a db_prefix [Iterate, Next, Next, Next]
        (GenStart, setLimitSkip env_a 2 1 pbr_a, world0)))) = []"
    by simp
  with h1 h2 run show ?thesis by simp
qed

lemma gen_run_alreadyRead:
  "alreadyRead p \<Longrightarrow>
     gen_run env db (Suc n) GenStart p w = (replicate (Suc n) IterDone, GenFinished, p, w)"
  by (simp add: gen_run_finished)

text \<open>
  C8. When \<^verbatim>\<open>next()\<close> on a generator that had not finished reports the end of the
  stream, \<^verbatim>\<open>alreadyRead\<close> is set; and from then on a new generator of the reader,
  advanced any number of times and in any state of the world, gives no chunk: every
  \<^verbatim>\<open>next()\<close> reports the end, and neither the reader nor the world changes.
\<close>

theorem consumed_reader_yields_nothing:
  assumes "gen_next env db g p w = (IterDone, g', p', w')" and "g \<noteq> GenFinished"
  shows "alreadyRead p' \<and>
         gen_run env db (Suc n) GenStart p' w2 =
           (replicate (Suc n) IterDone, GenFinished, p', w2)"
proof -
  have "alreadyRead p'"
  proof (cases "active g p")
    case True
    with assms(1) advance_done_alreadyRead show ?thesis by (simp add: gen_next_active)
  next
    case False
    with assms show ?thesis by (cases g) (simp_all add: active_def)
  qed
  with gen_run_alreadyRead [of p' env db n w2] show ?thesis by blast
qed

theorem consumed_reader_yields_nothing_witness:
  "gen_next env_a db_prefix GenSuspended pbr_end world0 =
     (IterDone, GenFinished,
      pbr_end\<lparr>fullbuff := Some [1, 2, 3], chunks := [], alreadyRead := True\<rparr>,
      world0\<lparr>store_payload :=
                [\<lparr>pr_payload = JBytes [1, 2, 3], pr_digest = Some ''sha1:ABC''\<rparr>],
              tick := 3\<rparr>)
   \<and> GenSuspended \<noteq> GenFinished
   \<and> gen_run env_a db_prefix (Suc 1) GenStart
        (pbr_end\<lparr>fullbuff := Some [1, 2, 3], chunks := [], alreadyRead := True\<rparr>) world0 =
       ([IterDone, IterDone], GenFinished,
        pbr_end\<lparr>fullbuff := Some [1, 2, 3], chunks := [], alreadyRead := True\<rparr>, world0)"
proof -
  have h1: "gen_next env_a db_prefix GenSuspended pbr_end world0 =
     (IterDone, GenFinished,
      pbr_end\<lparr>fullbuff := Some [1, 2, 3], chunks := [], alreadyRead := True\<rparr>,
      world0\<lparr>store_payload :=
                [\<lparr>pr_payload = JBytes [1, 2, 3], pr_digest = Some ''sha1:ABC''\<rparr>],
              tick := 3\<rparr>)"
    by code_simp
  have h2: "GenSuspended \<noteq> GenFinished" by simp
  from consumed_reader_yields_nothing [OF h1 h2, of 1 world0] h1 h2
  show ?thesis by (simp add: numeral_2_eq_2)
qed

subsection \<open>loadSource\<close>

lemma loadSource_fst:
  "fst (loadSource env db sc w) = fst (loadSource env db sc w')"
  by (simp add: loadSource_def split: option.splits sum.splits fetch.splits)

lemma loadSource_Inr:
  "loadSource env db sc w = (Inr strm, w1) \<Longrightarrow> w1 = w\<lparr>fetched := fetched w @ [sc]\<rparr>"
  by (auto simp: loadSource_def split: option.splits sum.splits fetch.splits if_splits)

lemma loadSource_world:
  "snd (loadSource env db sc w) = w \<or>
   snd (loadSource env db sc w) = w\<lparr>fetched := fetched w @ [sc]\<rparr>"
  by (simp add: loadSource_def split: option.splits sum.splits fetch.splits)

text \<open>
  With the configured loader, a fetch that fails with status 401 or 403 ends in the
  ReferenceError, and any other failed fetch in \<^verbatim>\<open>null\<close>.
\<close>

lemma loadSource_loader_auth:
  assumes "loader db = Some l"
    and "getRange env l (start sc) (len sc) = FetchFailed (Some st)"
    and "st = 401 \<or> st = 403"
  shows "fst (loadSource env db sc w) = Inl (ReferenceError ''url'')"
  using assms by (auto simp: loadSource_def)

lemma loadSource_loader_other:
  assumes "loader db = Some l"
    and "getRange env l (start sc) (len sc) = FetchFailed st"
    and "st \<noteq> Some 401" and "st \<noteq> Some 403"
  shows "fst (loadSource env db sc w) = Inr None"
  using assms by (simp add: loadSource_def)

text \<open>No environment, database or source makes \<^verbatim>\<open>loadSource\<close> throw \<^verbatim>\<open>AuthNeeded\<close>.\<close>

lemma loadSource_never_AuthNeeded:
  "fst (loadSource env db sc w) \<noteq> Inl (AuthNeeded u)"
  by (simp add: loadSource_def split: option.splits sum.splits fetch.splits)

text \<open>
  C2. The claim fails on the code. Built from a URL prefix and headers, the database
  is asked for a source whose fetch fails with status 401: \<^verbatim>\<open>loadSource\<close> throws the
  ReferenceError for \<^verbatim>\<open>url\<close>, not \<^verbatim>\<open>AuthNeeded\<close> with the URL
  \<^verbatim>\<open>http://archive/1.warc\<close>. Built from a loader object, with status 403, it does the
  same. \<^verbatim>\<open>loadPayload\<close> lets the exception through. With status 500 the result is
  \<^verbatim>\<open>null\<close>, as the claim says.
\<close>

theorem auth_failure_throws_reference_error:
  "loadSource (test_env (net_status 401) parse_a no_fault) db_prefix src_a world0 =
     (Inl (ReferenceError ''url''), world0\<lparr>fetched := [src_a]\<rparr>)
   \<and> loadSource (test_env (net_status 403) parse_a no_fault) db_loader src_a world0 =
     (Inl (ReferenceError ''url''), world0\<lparr>fetched := [src_a]\<rparr>)
   \<and> fst (loadPayload (test_env (net_status 401) parse_a no_fault) db_prefix cdx_a 0 world0) =
     Inl (ReferenceError ''url'')
   \<and> fst (loadPayload (test_env (net_status 500) parse_a no_fault) db_prefix cdx_a 0 world0) =
     Inr PNull"
  by code_simp

subsection \<open>loadPayload: the checks\<close>

lemma fetchRecord_Validated:
  "fetchRecord env db c w = Validated pl rm w1 \<Longrightarrow>
     remote_url rm = url c \<and> remote_ts rm = ts c \<and> remote_digest rm = digest c
     \<and> w1 = w\<lparr>fetched := fetched w @ [source c]\<rparr>"
  by (auto simp: fetchRecord_def dest: loadSource_Inr
      split: option.splits sum.splits prod.splits if_splits)

lemma fetchRecord_Finished_fetched:
  "fetchRecord env db c w = Finished res w1 \<Longrightarrow> length (fetched w1) \<le> Suc (length (fetched w))"
  using loadSource_world [of env db "source c" w]
  by (auto simp: fetchRecord_def split: option.splits sum.splits prod.splits if_splits)

text \<open>
  C3. A record is fetched for the entry (the local lookup did not already answer),
  and its url, its ts or its digest differs from the entry's. Then \<^verbatim>\<open>loadPayload\<close>
  returns \<^verbatim>\<open>null\<close> at any depth, the entry is as it was, and the world differs only by
  the fetch and by one line on the console: the three stores are as they were, so
  nothing was written to the dedup store and no entry was put into the catalog, and
  no storage operation was attempted.
\<close>

theorem mismatch_gives_no_payload:
  assumes "superLoadPayload env (store_payload w) c = None \<or> respHeaders c = None
             \<or> mime c = Some ''warc/revisit''"
    and "loadSource env db (source c) w = (Inr strm, w1)"
    and "parseRecord env strm = Some rm"
    and "remote_url rm \<noteq> url c \<or> remote_ts rm \<noteq> ts c \<or> remote_digest rm \<noteq> digest c"
  shows "loadPayload env db c depth w =
           (Inr PNull, c,
            w\<lparr>fetched := fetched w @ [source c],
              console := console w @ [mismatchLog c rm]\<rparr>)"
proof -
  have w1: "w1 = w\<lparr>fetched := fetched w @ [source c]\<rparr>"
    using assms(2) by (rule loadSource_Inr)
  have "fetchRecord env db c w = Finished (Inr PNull) (log (mismatchLog c rm) w1)"
    using assms by (auto simp: fetchRecord_def mismatchLog_def split: option.splits)
  then show ?thesis
    by (subst loadPayload.simps) (simp add: w1 log_def)
qed

theorem mismatch_gives_no_payload_witness:
  "(superLoadPayload env_xyz (store_payload world0) cdx_a = None \<or> respHeaders cdx_a = None
      \<or> mime cdx_a = Some ''warc/revisit'')
   \<and> loadSource env_xyz db_prefix (source cdx_a) world0 =
       (Inr (Some ''http://archive/1.warc''), world0\<lparr>fetched := [src_a]\<rparr>)
   \<and> parseRecord env_xyz (Some ''http://archive/1.warc'') =
       Some (rec_a\<lparr>remote_digest := Some ''sha1:XYZ''\<rparr>)
   \<and> remote_digest (rec_a\<lparr>remote_digest := Some ''sha1:XYZ''\<rparr>) \<noteq> digest cdx_a
   \<and> loadPayload env_xyz db_prefix cdx_a 0 world0 =
       (Inr PNull, cdx_a,
        world0\<lparr>fetched := [src_a],
               console := [WrongDigest (Some ''sha1:ABC'') (Some ''sha1:XYZ'')]\<rparr>)"
proof -
  have h1: "superLoadPayload env_xyz (store_payload world0) cdx_a = None
      \<or> respHeaders cdx_a = None \<or> mime cdx_a = Some ''warc/revisit''"
    by (simp add: cdx_a_def)
  have h2: "loadSource env_xyz db_prefix (source cdx_a) world0 =
       (Inr (Some ''http://archive/1.warc''), world0\<lparr>fetched := [src_a]\<rparr>)"
    by code_simp
  have h3: "parseRecord env_xyz (Some ''http://archive/1.warc'') =
       Some (rec_a\<lparr>remote_digest := Some ''sha1:XYZ''\<rparr>)"
    by (simp add: env_xyz_def test_env_def parse_xyz_def)
  have h4: "remote_digest (rec_a\<lparr>remote_digest := Some ''sha1:XYZ''\<rparr>) \<noteq> digest cdx_a"
    by (simp add: cdx_a_def)
  have h4': "remote_url (rec_a\<lparr>remote_digest := Some ''sha1:XYZ''\<rparr>) \<noteq> url cdx_a
      \<or> remote_ts (rec_a\<lparr>remote_digest := Some ''sha1:XYZ''\<rparr>) \<noteq> ts cdx_a
      \<or> remote_digest (rec_a\<lparr>remote_digest := Some ''sha1:XYZ''\<rparr>) \<noteq> digest cdx_a"
    using h4 by blast
  have m: "mismatchLog cdx_a (rec_a\<lparr>remote_digest := Some ''sha1:XYZ''\<rparr>) =
      WrongDigest (Some ''sha1:ABC'') (Some ''sha1:XYZ'')"
    by (simp add: mismatchLog_def cdx_a_def rec_a_def)
  have f: "fetched world0 = []" "console world0 = []" "source cdx_a = src_a"
    by (simp_all add: world0_def cdx_a_def)
  from mismatch_gives_no_payload [OF h1 h2 h3 h4', of 0] h1 h2 h3 h4 m f
  show ?thesis by simp
qed

subsection \<open>loadPayload: what it changes in the entry\<close>

lemma same_identity_refl: "same_identity c c"
  by (simp add: same_identity_def)

lemma collapseRevisit_identity:
  "same_identity c (fst (snd (collapseRevisit env c orig pl w)))"
  by (cases c) (simp add: collapseRevisit_def same_identity_def)

lemma updateResource_entry:
  "fst (updateResource env db c rm w) = c \<or> fst (updateResource env db c rm w) = assignRemote c rm"
  by (simp add: updateResource_def split: prod.splits sum.splits)

lemma assignRemote_identity:
  "remote_digest rm = digest c \<Longrightarrow> same_identity c (assignRemote c rm)"
  by (cases c) (simp add: assignRemote_def same_identity_def)

lemma resolvePlain_identity:
  assumes "remote_digest rm = digest c"
  shows "same_identity c (fst (snd (resolvePlain env db c rm w)))"
proof -
  have "fst (snd (resolvePlain env db c rm w)) = c
      \<or> fst (snd (resolvePlain env db c rm w)) = assignRemote c rm"
    using updateResource_entry [of env db c rm w]
    by (auto simp: resolvePlain_def split: prod.splits option.splits)
  with assignRemote_identity [OF assms] same_identity_refl [of c] show ?thesis by auto
qed

lemma loadPayload_identity:
  "same_identity c (fst (snd (loadPayload env db c depth w)))"
proof (cases "fetchRecord env db c w")
  case (Finished res w1)
  then show ?thesis by (subst loadPayload.simps) (simp add: same_identity_refl)
next
  case (Validated pl rm w1)
  from fetchRecord_Validated [OF this] have dg: "remote_digest rm = digest c" by simp
  show ?thesis
    using Validated resolvePlain_identity [OF dg, of env db w1] same_identity_refl [of c]
      collapseRevisit_identity [of c env]
    by (subst loadPayload.simps) (simp split: option.splits prod.splits sum.splits)
qed

text \<open>
  C10. When \<^verbatim>\<open>loadPayload\<close> returns a payload or a reader, the entry as the call
  leaves it has the url, the ts, the digest and the source it had on entry, and
  differs from the entry on entry at most in \<^verbatim>\<open>respHeaders\<close>, \<^verbatim>\<open>mime\<close>, \<^verbatim>\<open>extraOpts\<close>
  and \<^verbatim>\<open>payload\<close>. (The digest assigned on line 148 is the record's, which line 88
  checked against the entry's. The lemma above shows the same for every outcome of
  the call.)
\<close>

theorem resolution_keeps_identity:
  assumes "loadPayload env db c depth w = (Inr p, c', w')" and "\<not> is_null p"
  shows "url c' = url c \<and> ts c' = ts c \<and> digest c' = digest c \<and> source c' = source c
       \<and> c' = c\<lparr>respHeaders := respHeaders c', mime := mime c',
                 extraOpts := extraOpts c', payload := payload c'\<rparr>"
proof -
  from loadPayload_identity [of c env db depth w] assms(1)
  have eq: "c' = c\<lparr>respHeaders := respHeaders c', mime := mime c',
                    extraOpts := extraOpts c', payload := payload c'\<rparr>"
    by (simp add: same_identity_def)
  have "url c' = url c" "ts c' = ts c" "digest c' = digest c" "source c' = source c"
    by (subst eq, simp)+
  with eq show ?thesis by blast
qed

theorem resolution_keeps_identity_witness:
  "loadPayload (test_env net_ok parse_ab no_fault) db_prefix cdx_b 0 world_a =
     (Inr (PBytes [1, 2, 3]),
      cdx_b\<lparr>respHeaders := Some [(''content-type'', ''text/plain'')], mime := None\<rparr>,
      snd (snd (loadPayload (test_env net_ok parse_ab no_fault) db_prefix cdx_b 0 world_a)))
   \<and> \<not> is_null (PBytes [1, 2, 3] :: list_reader pval)
   \<and> url (cdx_b\<lparr>respHeaders := Some [(''content-type'', ''text/plain'')], mime := None\<rparr>) =
       ''http://x/b''
   \<and> digest (cdx_b\<lparr>respHeaders := Some [(''content-type'', ''text/plain'')], mime := None\<rparr>) =
       digest cdx_b"
proof -
  have h1: "loadPayload (test_env net_ok parse_ab no_fault) db_prefix cdx_b 0 world_a =
     (Inr (PBytes [1, 2, 3]),
      cdx_b\<lparr>respHeaders := Some [(''content-type'', ''text/plain'')], mime := None\<rparr>,
      snd (snd (loadPayload (test_env net_ok parse_ab no_fault) db_prefix cdx_b 0 world_a)))"
    by code_simp
  have h2: "\<not> is_null (PBytes [1, 2, 3] :: list_reader pval)" by simp
  have u: "url cdx_b = ''http://x/b''" by (simp add: cdx_b_def)
  from resolution_keeps_identity [OF h1 h2] h1 h2 u show ?thesis by simp
qed

subsection \<open>loadPayload: the depth of the recursion\<close>

lemma collapseRevisit_fetched:
  "fetched (snd (snd (collapseRevisit env c orig pl w))) = fetched w"
  by (simp add: collapseRevisit_def)

lemma updateResource_fetched:
  "fetched (snd (updateResource env db c rm w)) = fetched w"
proof -
  have "fetched (snd (commitPayload env db (js_of_str (remote_digest rm)) None (ticked w)))
      = fetched w"
    by (simp add: commitPayload_frame)
  then show ?thesis
    by (auto simp: updateResource_def warnUpdate_def split: prod.splits sum.splits)
qed

lemma resolvePlain_fetched:
  "fetched (snd (snd (resolvePlain env db c rm w))) = fetched w"
  using updateResource_fetched [of env db c rm w]
  by (auto simp: resolvePlain_def split: prod.splits option.splits)

lemma loadPayload_fetches:
  "length (fetched (snd (snd (loadPayload env db c depth w))))
     \<le> length (fetched w) + Suc (2 - depth)"
proof (induction env db c depth w rule: loadPayload.induct)
  case (1 env db c depth w)
  show ?case
  proof (cases "fetchRecord env db c w")
    case (Finished res w1)
    with fetchRecord_Finished_fetched [OF this] show ?thesis
      by (subst loadPayload.simps) simp
  next
    case (Validated pl rm w1)
    from fetchRecord_Validated [OF this]
    have w1: "length (fetched w1) = Suc (length (fetched w))" by simp
    show ?thesis
    proof (cases "truthy_str (remote_origURL rm)")
      case False
      with Validated w1 resolvePlain_fetched [of env db c rm w1] show ?thesis
        by (subst loadPayload.simps) simp
    next
      case True
      note orig = this
      show ?thesis
      proof (cases "lookupUrl env (store_resources w1)
                      (case_option [] id (remote_origURL rm)) (remote_origTS rm)")
        case None
        with Validated orig w1 show ?thesis by (subst loadPayload.simps) simp
      next
        case (Some origResult)
        show ?thesis
        proof (cases "is_null pl")
          case False
          with Validated orig Some w1 collapseRevisit_fetched [of env c origResult pl w1]
          show ?thesis by (subst loadPayload.simps) simp
        next
          case True
          show ?thesis
          proof (cases "depth < 2")
            case False
            with Validated orig Some True w1 show ?thesis
              by (subst loadPayload.simps) simp
          next
            case deep: True
            obtain r o' w2 where rec:
              "loadPayload env db origResult (depth + 1) w1 = (r, o', w2)"
              by (cases "loadPayload env db origResult (depth + 1) w1")
            from "1.IH" [OF Validated orig Some True deep] rec w1 deep
            have w2: "length (fetched w2) \<le> length (fetched w) + Suc (2 - depth)"
              by simp
            show ?thesis
            proof (cases r)
              case (Inl e)
              with Validated orig Some True deep rec w2 show ?thesis
                by (subst loadPayload.simps) simp
            next
              case (Inr p)
              with Validated orig Some True deep rec w2
                collapseRevisit_fetched [of env c o' p w2]
              show ?thesis by (subst loadPayload.simps) simp
            qed
          qed
        qed
      qed
    qed
  qed
qed


lemma revisit_of_fetchRecord:
  assumes "revisit_of env db w x y"
    and "store_payload w' = store_payload w" and "store_resources w' = store_resources w"
  shows "\<exists>rm. fetchRecord env db x w' = Validated PNull rm (w'\<lparr>fetched := fetched w' @ [source x]\<rparr>)
            \<and> truthy_str (remote_origURL rm) \<and> remote_url rm = url x
            \<and> lookupUrl env (store_resources w') (case_option [] id (remote_origURL rm))
                  (remote_origTS rm) = Some y"
proof -
  from assms(1) obtain strm rm where
    ld: "fst (loadSource env db (source x) w) = Inr strm" and
    pr: "parseRecord env strm = Some rm" and
    ok: "remote_url rm = url x" "remote_ts rm = ts x" "remote_digest rm = digest x"
      "truthy_str (remote_origURL rm)"
      "lookupUrl env (store_resources w) (case_option [] id (remote_origURL rm))
          (remote_origTS rm) = Some y" and
    loc: "superLoadPayload env (store_payload w) x = None"
    by (auto simp: revisit_of_def split: sum.splits option.splits)
  from ld loadSource_fst [of env db "source x" w' w]
  have "fst (loadSource env db (source x) w') = Inr strm" by simp
  then obtain w1 where l': "loadSource env db (source x) w' = (Inr strm, w1)"
    by (cases "loadSource env db (source x) w'") simp
  from loadSource_Inr [OF l'] have w1: "w1 = w'\<lparr>fetched := fetched w' @ [source x]\<rparr>" .
  have "fetchRecord env db x w' = Validated PNull rm (w'\<lparr>fetched := fetched w' @ [source x]\<rparr>)"
    using loc pr ok l' w1 assms(2) by (simp add: fetchRecord_def)
  with ok assms(3) show ?thesis by auto
qed

text \<open>
  C4. \<^verbatim>\<open>loadPayload\<close> is a total function: its recursive call is made only when
  \<open>depth < 2\<close>, with \<open>depth + 1\<close>, which is the termination order accepted above; by
  \<open>loadPayload_fetches\<close> a call at depth \<open>0\<close> fetches at most three times, whatever the
  archive holds. For two entries \<open>a\<close> and \<open>b\<close> without local payload whose records are
  valid revisits of each other, the call for \<open>a\<close> at depth \<open>0\<close> returns \<^verbatim>\<open>null\<close> after
  exactly three fetches (for \<open>a\<close>, for \<open>b\<close> and for \<open>a\<close>, at depths 0, 1 and 2), logs the
  loop warning once, and leaves the entry and the stores as they were.
\<close>

theorem revisit_cycle_returns_no_payload:
  assumes ab: "revisit_of env db w a b" and ba: "revisit_of env db w b a"
  shows "loadPayload env db a 0 w =
           (Inr PNull, a,
            w\<lparr>fetched := fetched w @ [source a, source b, source a],
              console := console w @ [RevisitLoop (url a)]\<rparr>)"
proof -
  let ?w1 = "w\<lparr>fetched := fetched w @ [source a]\<rparr>"
  let ?w2 = "?w1\<lparr>fetched := fetched ?w1 @ [source b]\<rparr>"
  let ?w3 = "?w2\<lparr>fetched := fetched ?w2 @ [source a]\<rparr>"
  from revisit_of_fetchRecord [OF ab, of w] obtain r0 where
    f0: "fetchRecord env db a w = Validated PNull r0 ?w1"
    and o0: "truthy_str (remote_origURL r0)"
    and l0: "lookupUrl env (store_resources ?w1) (case_option [] id (remote_origURL r0))
                (remote_origTS r0) = Some b"
    by auto
  from revisit_of_fetchRecord [OF ba, of ?w1] obtain r1 where
    f1: "fetchRecord env db b ?w1 = Validated PNull r1 ?w2"
    and o1: "truthy_str (remote_origURL r1)"
    and l1: "lookupUrl env (store_resources ?w2) (case_option [] id (remote_origURL r1))
                (remote_origTS r1) = Some a"
    by auto
  from revisit_of_fetchRecord [OF ab, of ?w2] obtain r2 where
    f2: "fetchRecord env db a ?w2 = Validated PNull r2 ?w3"
    and o2: "truthy_str (remote_origURL r2)" and u2: "remote_url r2 = url a"
    and l2: "lookupUrl env (store_resources ?w3) (case_option [] id (remote_origURL r2))
                (remote_origTS r2) = Some b"
    by auto
  have d2: "loadPayload env db a 2 ?w2 = (Inr PNull, a, log (RevisitLoop (url a)) ?w3)"
    using f2 o2 l2 u2 by (subst loadPayload.simps) simp
  have d1: "loadPayload env db b 1 ?w1 = (Inr PNull, b, log (RevisitLoop (url a)) ?w3)"
    using f1 o1 l1 d2 by (subst loadPayload.simps) (simp add: numeral_2_eq_2)
  have d0: "loadPayload env db a 0 w = (Inr PNull, a, log (RevisitLoop (url a)) ?w3)"
    using f0 o0 l0 d1 by (subst loadPayload.simps) simp
  then show ?thesis by (simp add: log_def)
qed


theorem revisit_cycle_returns_no_payload_witness:
  "revisit_of env_pq db_prefix world_pq cdx_p cdx_q
   \<and> revisit_of env_pq db_prefix world_pq cdx_q cdx_p
   \<and> loadPayload env_pq db_prefix cdx_p 0 world_pq =
       (Inr PNull, cdx_p,
        world_pq\<lparr>fetched := [src_p, src_q, src_p],
                 console := [RevisitLoop ''http://x/p'']\<rparr>)"
proof -
  have h1: "revisit_of env_pq db_prefix world_pq cdx_p cdx_q" by code_simp
  have h2: "revisit_of env_pq db_prefix world_pq cdx_q cdx_p" by code_simp
  have f: "fetched world_pq = []" "console world_pq = []" "source cdx_p = src_p"
    "source cdx_q = src_q" "url cdx_p = ''http://x/p''"
    by (simp_all add: world_pq_def world0_def cdx_p_def cdx_q_def)
  from revisit_cycle_returns_no_payload [OF h1 h2] h1 h2 f show ?thesis by simp
qed

subsection \<open>loadPayload: the stores\<close>

lemma commitPayload_payload:
  "store_payload (snd (commitPayload env db pl dg w)) = store_payload w
   \<or> store_payload (snd (commitPayload env db pl dg w)) =
       store_payload w @ [\<lparr>pr_payload = pl, pr_digest = dg\<rparr>]"
proof -
  obtain r w2 where eq: "commit_try env db pl dg (ticked w) = (r, w2)"
    by (cases "commit_try env db pl dg (ticked w)")
  with commit_try_payload [of env db pl dg "ticked w"]
  have "store_payload w2 = store_payload w
      \<or> store_payload w2 = store_payload w @ [\<lparr>pr_payload = pl, pr_digest = dg\<rparr>]"
    by (cases r) simp_all
  with eq show ?thesis
    by (cases r) (auto simp: commitPayload_def)
qed

lemma updateResource_payload:
  "store_payload (snd (updateResource env db c rm w)) = store_payload w
   \<or> store_payload (snd (updateResource env db c rm w)) =
       store_payload w @ [\<lparr>pr_payload = js_of_str (remote_digest rm), pr_digest = None\<rparr>]"
proof -
  obtain r w1 where eq:
    "commitPayload env db (js_of_str (remote_digest rm)) None (ticked w) = (r, w1)"
    by (cases "commitPayload env db (js_of_str (remote_digest rm)) None (ticked w)")
  with commitPayload_payload [of env db "js_of_str (remote_digest rm)" None "ticked w"]
  have "store_payload w1 = store_payload w
      \<or> store_payload w1 =
          store_payload w @ [\<lparr>pr_payload = js_of_str (remote_digest rm), pr_digest = None\<rparr>]"
    by simp
  with eq show ?thesis
    by (cases r) (auto simp: updateResource_def warnUpdate_def)
qed

lemma dedup_get_append_no_digest:
  assumes "store_payload w' = store_payload w
      \<or> store_payload w' = store_payload w @ [\<lparr>pr_payload = v, pr_digest = None\<rparr>]"
  shows "dedup_get w' d = dedup_get w d"
  using assms by (auto simp: dedup_get_def)

text \<open>
  The payload record that the non-revisit path writes carries no digest, so for every
  environment, entry and record the dedup store maps each digest to what it mapped it
  to before.
\<close>

lemma resolvePlain_dedup_unchanged:
  "dedup_get (snd (snd (resolvePlain env db c rm w))) d = dedup_get w d"
proof -
  have "store_payload (snd (snd (resolvePlain env db c rm w))) = store_payload w
      \<or> store_payload (snd (snd (resolvePlain env db c rm w))) =
          store_payload w @ [\<lparr>pr_payload = js_of_str (remote_digest rm), pr_digest = None\<rparr>]"
    using updateResource_payload [of env db c rm w]
    by (auto simp: resolvePlain_def split: prod.splits option.splits)
  then show ?thesis by (rule dedup_get_append_no_digest)
qed

text \<open>
  C1. The claim fails on the code. The spec's example entry is resolved against a
  record that matches it and carries the inline bytes 1, 2, 3, with no storage
  failure. \<^verbatim>\<open>loadPayload\<close> returns the bytes and persists the entry, but the one record
  that reached the payload store is \<^verbatim>\<open>{payload: "sha1:ABC", digest: undefined}\<close>: line
  144 passes the digest alone to \<^verbatim>\<open>commitPayload(payload, digest)\<close>. The dedup store
  has nothing under \<^verbatim>\<open>sha1:ABC\<close>. (Were the store to reject a record without a
  digest, the \<^verbatim>\<open>put\<close> would be a failing storage operation and nothing would be
  written; \<open>resolvePlain_dedup_unchanged\<close> covers that case too.)
\<close>

theorem inline_payload_not_committed:
  "loadPayload env_a db_prefix cdx_a 0 world0 =
     (Inr (PBytes [1, 2, 3]),
      cdx_a\<lparr>respHeaders := Some [(''content-type'', ''text/plain'')]\<rparr>,
      world0\<lparr>store_resources :=
                [cdx_a\<lparr>respHeaders := Some [(''content-type'', ''text/plain'')]\<rparr>],
              store_payload := [\<lparr>pr_payload = JString ''sha1:ABC'', pr_digest = None\<rparr>],
              fetched := [src_a], tick := 6\<rparr>)
   \<and> dedup_get (snd (snd (loadPayload env_a db_prefix cdx_a 0 world0))) ''sha1:ABC'' = None"
  by code_simp

subsection \<open>loadPayload: storage failures\<close>

text \<open>Once its transaction is open, \<^verbatim>\<open>commitPayload\<close> returns whatever fails.\<close>

lemma commitPayload_opened_returns:
  "op_ok env w \<Longrightarrow> fst (commitPayload env db pl dg w) = Inr ()"
  by (simp add: commitPayload_def split: prod.splits sum.splits)

text \<open>The non-revisit path returns what the record holds, whatever fails in storage.\<close>

lemma resolvePlain_never_throws:
  "\<exists>p. fst (resolvePlain env db c rm w) = Inr p"
  by (simp add: resolvePlain_def split: prod.splits option.splits)

text \<open>
  C9. The claim fails on the code. The entry \<open>cdx_b\<close> is a revisit of \<open>cdx_a\<close>, whose
  record matches and carries inline bytes. Resolving \<open>cdx_b\<close> fetches and validates
  both records and obtains the bytes from the recursive call; then the \<^verbatim>\<open>put\<close> of the
  updated \<open>cdx_b\<close> into the catalog on line 115, the seventh storage operation, fails.
  That \<^verbatim>\<open>put\<close> is not inside a \<^verbatim>\<open>try\<close>: \<^verbatim>\<open>loadPayload\<close> throws the storage error and
  the bytes are lost to the caller. Without the failure the same call returns them.
  And \<^verbatim>\<open>commitPayload\<close> opens its transaction on line 173, before its \<^verbatim>\<open>try\<close>: when
  that fails, the error leaves \<^verbatim>\<open>commitPayload\<close>.
\<close>

theorem revisit_persist_failure_is_thrown:
  "fst (loadPayload (test_env net_ok parse_ab (fault_at 6)) db_prefix cdx_b 0 world_a) =
     Inl StorageError
   \<and> fst (loadPayload (test_env net_ok parse_ab no_fault) db_prefix cdx_b 0 world_a) =
     Inr (PBytes [1, 2, 3])
   \<and> fst (commitPayload (test_env net_ok parse_a (fault_at 0)) db_prefix (JBytes [1, 2, 3])
        (Some ''sha1:ABC'') world0) = Inl StorageError"
  by code_simp

subsection \<open>loadPayload: the authentication signal\<close>

text \<open>
  No environment, database, entry or depth makes \<^verbatim>\<open>loadPayload\<close> throw \<^verbatim>\<open>AuthNeeded\<close>:
  the only place that constructs it is the one in \<^verbatim>\<open>loadSource\<close> that cannot be
  reached.
\<close>

lemma fetchRecord_never_AuthNeeded:
  "fetchRecord env db c w \<noteq> Finished (Inl (AuthNeeded u)) w1"
  using loadSource_never_AuthNeeded [of env db "source c" w u]
  by (auto simp: fetchRecord_def split: option.splits sum.splits prod.splits if_splits)

lemma collapseRevisit_never_AuthNeeded:
  "fst (collapseRevisit env c orig pl w) \<noteq> Inl (AuthNeeded u)"
  by (simp add: collapseRevisit_def)

lemma loadPayload_never_AuthNeeded:
  "fst (loadPayload env db c depth w) \<noteq> Inl (AuthNeeded u)"
proof (induction env db c depth w rule: loadPayload.induct)
  case (1 env db c depth w)
  show ?case
  proof (cases "fetchRecord env db c w")
    case (Finished res w1)
    with fetchRecord_never_AuthNeeded [of env db c w u w1] show ?thesis
      by (subst loadPayload.simps) auto
  next
    case (Validated pl rm w1)
    show ?thesis
    proof (cases "truthy_str (remote_origURL rm) \<and> is_null pl \<and> depth < 2")
      case False
      with Validated resolvePlain_never_throws [of env db c rm w1]
        collapseRevisit_never_AuthNeeded [of env c _ pl w1 u]
      show ?thesis
        by (subst loadPayload.simps) (auto split: option.splits)
    next
      case True
      show ?thesis
      proof (cases "lookupUrl env (store_resources w1)
                      (case_option [] id (remote_origURL rm)) (remote_origTS rm)")
        case None
        with Validated True show ?thesis by (subst loadPayload.simps) simp
      next
        case (Some origResult)
        obtain r o' w2 where rec:
          "loadPayload env db origResult (depth + 1) w1 = (r, o', w2)"
          by (cases "loadPayload env db origResult (depth + 1) w1")
        from "1.IH" [OF Validated _ Some] True rec
        have "r \<noteq> Inl (AuthNeeded u)" by simp
        with Validated True Some rec collapseRevisit_never_AuthNeeded [of env c o' _ w2 u]
        show ?thesis
          by (subst loadPayload.simps) (auto split: sum.splits)
      qed
    qed
  qed
qed

end
